theory Spec2Isabelle
  imports Main "HOL-Library.AList" "HOL-Library.Char_ord" "HOL-Library.List_Lexorder"
begin

section \<open>Go values used by package firebase\<close>

text \<open>
  A Go \<^verbatim>\<open>string\<close> and a \<^verbatim>\<open>[]byte\<close> are byte sequences: \<^typ>\<open>string\<close>. A nil slice
  is the empty list; the package only takes \<^verbatim>\<open>len\<close> of a slice or hands it to the JSON
  decoder and the HTTP stack, which do not tell nil from empty.

  A \<^verbatim>\<open>map[string]string\<close> is an association list: the entries in the order in which
  \<^verbatim>\<open>range\<close> visits them. The keys of a Go map are distinct; the nil map is the empty
  list (ranging over it and indexing it are defined in Go).

  An \<^verbatim>\<open>error\<close> is a value of the datatype below; the nil error is \<open>None\<close> of
  \<open>error option\<close>. \<^verbatim>\<open>errors.New(text)\<close> is \<open>errorString text\<close>; the other
  constructors stand for the errors of net/http, io/ioutil and encoding/json.
\<close>

type_synonym bytes = string

type_synonym gomap = "(string \<times> string) list"

datatype error =
    errorString string
  | HttpError string
  | ReadError string
  | JsonError string

fun Error :: "error \<Rightarrow> string" where
  "Error (errorString s) = s"
| "Error (HttpError s) = s"
| "Error (ReadError s) = s"
| "Error (JsonError s) = s"

text \<open>\<^verbatim>\<open>m[k]\<close> on a \<^verbatim>\<open>map[string]string\<close>: the zero value \<^verbatim>\<open>""\<close> for a missing key.\<close>

definition index :: "gomap \<Rightarrow> string \<Rightarrow> string" where
  "index m k = (case map_of m k of None \<Rightarrow> [] | Some v \<Rightarrow> v)"

text \<open>\<^verbatim>\<open>strings.HasSuffix\<close>:
  \<^verbatim>\<open>len(s) >= len(suffix) && s[len(s)-len(suffix):] == suffix\<close>.\<close>

definition HasSuffix :: "string \<Rightarrow> string \<Rightarrow> bool" where
  "HasSuffix s suf = (length suf \<le> length s \<and> drop (length s - length suf) s = suf)"

subsection \<open>net/url: query values\<close>

text \<open>
  \<^verbatim>\<open>url.Values\<close> is a \<^verbatim>\<open>map[string][]string\<close>. \<^verbatim>\<open>Set\<close> replaces the values of a key by
  one value. \<^verbatim>\<open>Encode\<close> writes \<^verbatim>\<open>key=value\<close> for every value of every key, the keys
  sorted (bytewise), both parts escaped by \<^verbatim>\<open>QueryEscape\<close>, joined by \<^verbatim>\<open>&\<close>.
  \<^verbatim>\<open>QueryEscape\<close> keeps letters, digits and \<^verbatim>\<open>- _ . ~\<close>, writes a space as \<^verbatim>\<open>+\<close> and
  every other byte as \<^verbatim>\<open>%XX\<close> with upper-case hexadecimal digits.
\<close>

type_synonym Values = "(string \<times> string list) list"

definition Values_Set :: "Values \<Rightarrow> string \<Rightarrow> string \<Rightarrow> Values" where
  "Values_Set qs k v = AList.update k [v] qs"

definition shouldEscape :: "char \<Rightarrow> bool" where
  "shouldEscape c =
     (if (CHR ''a'' \<le> c \<and> c \<le> CHR ''z'') \<or> (CHR ''A'' \<le> c \<and> c \<le> CHR ''Z'')
          \<or> (CHR ''0'' \<le> c \<and> c \<le> CHR ''9'') then False
      else if c = CHR ''-'' \<or> c = CHR ''_'' \<or> c = CHR ''.'' \<or> c = CHR ''~'' then False
      else True)"

definition hexdigit :: "nat \<Rightarrow> char" where
  "hexdigit n = ''0123456789ABCDEF'' ! (n mod 16)"

definition escape_char :: "char \<Rightarrow> string" where
  "escape_char c =
     (if c = CHR '' '' then ''+''
      else if shouldEscape c
        then [CHR ''%'', hexdigit (of_char c div 16), hexdigit (of_char c mod 16)]
      else [c])"

definition QueryEscape :: "string \<Rightarrow> string" where
  "QueryEscape s = concat (map escape_char s)"

fun join :: "string \<Rightarrow> string list \<Rightarrow> string" where
  "join sep [] = []"
| "join sep [x] = x"
| "join sep (x # y # ys) = x @ sep @ join sep (y # ys)"

definition Values_Get_all :: "Values \<Rightarrow> string \<Rightarrow> string list" where
  "Values_Get_all qs k = (case map_of qs k of None \<Rightarrow> [] | Some vs \<Rightarrow> vs)"

definition Encode_parts :: "Values \<Rightarrow> string list" where
  "Encode_parts qs =
     concat (map (\<lambda>k. map (\<lambda>v. QueryEscape k @ ''='' @ QueryEscape v) (Values_Get_all qs k))
                 (sort (map fst qs)))"

definition Values_Encode :: "Values \<Rightarrow> string" where
  "Values_Encode qs = join ''&'' (Encode_parts qs)"

section \<open>The HTTP transport: \<^verbatim>\<open>client.Call\<close>\<close>

text \<open>The arguments of one \<^verbatim>\<open>Api.Call\<close>: method, path, auth, body, params.\<close>

record call =
  call_method :: string
  call_path :: string
  call_auth :: string
  call_body :: bytes
  call_params :: gomap

text \<open>
  The interface \<^verbatim>\<open>Api\<close>. A call may change the world behind the transport (the remote
  store, a test double's memory), so it takes and returns a state \<open>'w\<close>. The Go result
  \<^verbatim>\<open>([]byte, error)\<close> is a sum: every caller in the package looks at the bytes only when
  the error is nil.
\<close>

type_synonym 'w Api = "call \<Rightarrow> 'w \<Rightarrow> (error + bytes) \<times> 'w"

definition suffix :: string where
  "suffix = ''.json''"

record Request =
  Method :: string
  URL :: string
  ReqBody :: bytes
  Close :: bool

text \<open>An \<^verbatim>\<open>http.Response\<close>: \<open>Body\<close> is what \<^verbatim>\<open>ioutil.ReadAll(res.Body)\<close> yields.\<close>

record Response =
  StatusCode :: int
  Body :: "error + bytes"

text \<open>
  net/http is outside the package: \<open>NewRequest\<close> is the validation of the method and
  the address by \<^verbatim>\<open>http.NewRequest\<close> (\<open>None\<close>: the request is built), \<open>Do\<close> is
  \<^verbatim>\<open>httpClient.Do\<close>.
\<close>

record 'w http =
  NewRequest :: "string \<Rightarrow> string \<Rightarrow> error option"
  Do :: "Request \<Rightarrow> 'w \<Rightarrow> (error + Response) \<times> 'w"

text \<open>Lines 200 to 211 of \<^verbatim>\<open>client.Call\<close>: the query values.\<close>

definition Call_query :: "string \<Rightarrow> gomap \<Rightarrow> Values" where
  "Call_query auth params =
     (let qs = [];
          qs = (if length auth > 0 then Values_Set qs ''auth'' auth else qs)
      in foldl (\<lambda>qs (k, v). Values_Set qs k v) qs params)"

text \<open>Lines 195 to 215 of \<^verbatim>\<open>client.Call\<close>: the address of the request.\<close>

definition Call_address :: "string \<Rightarrow> string \<Rightarrow> gomap \<Rightarrow> string" where
  "Call_address path auth params =
     (let path = (if \<not> HasSuffix path ''/'' then path @ ''/'' else path);
          path = path @ suffix;
          qs = Call_query auth params
      in if length qs > 0 then path @ ''?'' @ Values_Encode qs else path)"

definition client_Call :: "'w http \<Rightarrow> 'w Api" where
  "client_Call H c w =
     (let path = Call_address (call_path c) (call_auth c) (call_params c) in
      case NewRequest H (call_method c) path of
        Some err \<Rightarrow> (Inl err, w)
      | None \<Rightarrow>
          (let req = \<lparr>Method = call_method c, URL = path, ReqBody = call_body c, Close = False\<rparr>;
               req = req\<lparr>Close := True\<rparr>
           in case Do H req w of
                (Inl err, w') \<Rightarrow> (Inl err, w')
              | (Inr res, w') \<Rightarrow>
                  (case Body res of
                     Inl err \<Rightarrow> (Inl err, w')
                   | Inr ret \<Rightarrow>
                       if StatusCode res \<ge> 400 then (Inl (errorString ret), w')
                       else (Inr ret, w'))))"

section \<open>The client \<^verbatim>\<open>F\<close>\<close>

text \<open>
  An \<^verbatim>\<open>interface{}\<close> value is \<open>'v option\<close>: \<open>None\<close> is the nil interface, \<open>'v\<close> are
  the dynamic values a program stores. encoding/json is outside the package and is a
  parameter: \<open>Marshal\<close> is \<^verbatim>\<open>json.Marshal(value)\<close>; \<open>Unmarshal res v\<close> is
  \<^verbatim>\<open>json.Unmarshal(res, &v)\<close> for an \<^verbatim>\<open>interface{}\<close> variable that holds \<open>v\<close> before the
  call, and yields what the variable holds after it; \<open>Unmarshal_map res\<close> is
  \<^verbatim>\<open>json.Unmarshal(res, &r)\<close> for a nil \<^verbatim>\<open>map[string]string\<close> variable.
\<close>

record 'v json =
  Marshal :: "'v option \<Rightarrow> error + bytes"
  Unmarshal :: "bytes \<Rightarrow> 'v option \<Rightarrow> error + 'v option"
  Unmarshal_map :: "bytes \<Rightarrow> error + gomap"

text \<open>
  The struct \<^verbatim>\<open>F\<close>. The field \<^verbatim>\<open>value\<close> is \<open>value_F\<close>. The interface field \<^verbatim>\<open>api\<close> is
  nil (\<open>None\<close>) in a zero \<^verbatim>\<open>F\<close> on which \<^verbatim>\<open>Init\<close> was never called.
\<close>

record ('v, 'w) F =
  Url :: string
  Auth :: string
  api :: "'w Api option"
  value_F :: "'v option"

text \<open>
  Methods have the pointer receiver \<^verbatim>\<open>f *F\<close> and return pointers to new structs, so the
  structs live in a store: an address is an index into \<open>heap\<close>, a \<^verbatim>\<open>*F\<close> that may be nil
  is an \<open>addr option\<close>, and \<^verbatim>\<open>&F{...}\<close> appends a struct. \<open>world\<close> is the state behind the
  transports. \<open>calls\<close> records every \<^verbatim>\<open>Api.Call\<close> the methods issue, in order; the code
  has no such field, it is there to state how many calls a method makes. The
  \<^verbatim>\<open>log.Printf\<close> lines are left out.
\<close>

type_synonym addr = nat

record ('v, 'w) state =
  heap :: "('v, 'w) F list"
  world :: 'w
  calls :: "call list"

text \<open>A nil dereference panics; a method that returns normally yields \<open>Return\<close>.\<close>

datatype 'a outcome = Panic | Return 'a

definition deref :: "('v, 'w) state \<Rightarrow> addr \<Rightarrow> ('v, 'w) F option" where
  "deref s p = (if p < length (heap s) then Some (heap s ! p) else None)"

definition alloc :: "('v, 'w) F \<Rightarrow> ('v, 'w) state \<Rightarrow> addr \<times> ('v, 'w) state" where
  "alloc x s = (length (heap s), s\<lparr>heap := heap s @ [x]\<rparr>)"

definition store :: "addr \<Rightarrow> ('v, 'w) F \<Rightarrow> ('v, 'w) state \<Rightarrow> ('v, 'w) state" where
  "store p x s = s\<lparr>heap := (heap s)[p := x]\<rparr>"

text \<open>\<^verbatim>\<open>f.api.Call(...)\<close>: a panic on the nil interface, else one call of the transport.\<close>

definition api_Call ::
  "('v, 'w) F \<Rightarrow> call \<Rightarrow> ('v, 'w) state \<Rightarrow> (error + bytes) outcome \<times> ('v, 'w) state" where
  "api_Call f c s =
     (case api f of
        None \<Rightarrow> (Panic, s)
      | Some a \<Rightarrow>
          (let (r, w') = a c (world s)
           in (Return r, s\<lparr>world := w', calls := calls s @ [c]\<rparr>)))"

definition Init ::
  "'w http \<Rightarrow> addr \<Rightarrow> string \<Rightarrow> string \<Rightarrow> 'w Api option \<Rightarrow> ('v, 'w) state
     \<Rightarrow> unit outcome \<times> ('v, 'w) state" where
  "Init H p root auth a s =
     (let a = (case a of None \<Rightarrow> Some (client_Call H) | Some x \<Rightarrow> Some x) in
      case deref s p of
        None \<Rightarrow> (Panic, s)
      | Some f \<Rightarrow> (Return (), store p (f\<lparr>api := a, Url := root, Auth := auth\<rparr>) s))"

definition Child ::
  "'v json \<Rightarrow> addr \<Rightarrow> string \<Rightarrow> gomap \<Rightarrow> 'v option \<Rightarrow> ('v, 'w) state
     \<Rightarrow> addr option outcome \<times> ('v, 'w) state" where
  "Child J p path params v s =
     (case deref s p of
        None \<Rightarrow> (Panic, s)
      | Some f \<Rightarrow>
          (let u = Url f @ ''/'' @ path in
           case api_Call f \<lparr>call_method = ''GET'', call_path = u, call_auth = Auth f,
                            call_body = [], call_params = params\<rparr> s of
             (Panic, s') \<Rightarrow> (Panic, s')
           | (Return (Inl err), s') \<Rightarrow> (Return None, s')
           | (Return (Inr res), s') \<Rightarrow>
               (case Unmarshal J res v of
                  Inl err \<Rightarrow> (Return None, s')
                | Inr v' \<Rightarrow>
                    (let (ret, s'') = alloc \<lparr>Url = u, Auth = Auth f, api = api f, value_F = v'\<rparr> s'
                     in (Return (Some ret), s'')))))"

text \<open>
  In \<^verbatim>\<open>Value\<close> the assignment \<^verbatim>\<open>f = f.Child("", nil, v)\<close> changes the local pointer
  variable \<^verbatim>\<open>f\<close> (here \<open>f'\<close>), not the struct the receiver points to.
\<close>

definition Value ::
  "'v json \<Rightarrow> addr \<Rightarrow> ('v, 'w) state \<Rightarrow> 'v option outcome \<times> ('v, 'w) state" where
  "Value J p s =
     (case deref s p of
        None \<Rightarrow> (Panic, s)
      | Some f \<Rightarrow>
          (case (if value_F f = None then Child J p [] [] None s else (Return (Some p), s)) of
             (Panic, s') \<Rightarrow> (Panic, s')
           | (Return None, s') \<Rightarrow> (Return None, s')
           | (Return (Some f'), s') \<Rightarrow>
               (case deref s' f' of
                  None \<Rightarrow> (Panic, s')
                | Some g \<Rightarrow> (Return (value_F g), s'))))"

definition Push ::
  "'v json \<Rightarrow> addr \<Rightarrow> 'v option \<Rightarrow> gomap \<Rightarrow> ('v, 'w) state
     \<Rightarrow> (addr option \<times> error option) outcome \<times> ('v, 'w) state" where
  "Push J p val params s =
     (case Marshal J val of
        Inl err \<Rightarrow> (Return (None, Some err), s)
      | Inr body \<Rightarrow>
          (case deref s p of
             None \<Rightarrow> (Panic, s)
           | Some f \<Rightarrow>
               (case api_Call f \<lparr>call_method = ''POST'', call_path = Url f, call_auth = Auth f,
                                call_body = body, call_params = params\<rparr> s of
                  (Panic, s') \<Rightarrow> (Panic, s')
                | (Return (Inl err), s') \<Rightarrow> (Return (None, Some err), s')
                | (Return (Inr res), s') \<Rightarrow>
                    (case Unmarshal_map J res of
                       Inl err \<Rightarrow> (Return (None, Some err), s')
                     | Inr r \<Rightarrow>
                         (let (ret, s'') =
                                alloc \<lparr>Url = Url f @ ''/'' @ index r ''name'', Auth = Auth f,
                                       api = api f, value_F = val\<rparr> s'
                          in (Return (Some ret, None), s''))))))"

definition Set ::
  "'v json \<Rightarrow> addr \<Rightarrow> string \<Rightarrow> 'v option \<Rightarrow> gomap \<Rightarrow> ('v, 'w) state
     \<Rightarrow> (addr option \<times> error option) outcome \<times> ('v, 'w) state" where
  "Set J p path val params s =
     (case deref s p of
        None \<Rightarrow> (Panic, s)
      | Some f \<Rightarrow>
          (let u = Url f @ ''/'' @ path in
           case Marshal J val of
             Inl err \<Rightarrow> (Return (None, Some err), s)
           | Inr body \<Rightarrow>
               (case api_Call f \<lparr>call_method = ''PUT'', call_path = u, call_auth = Auth f,
                                call_body = body, call_params = params\<rparr> s of
                  (Panic, s') \<Rightarrow> (Panic, s')
                | (Return (Inl err), s') \<Rightarrow> (Return (None, Some err), s')
                | (Return (Inr res), s') \<Rightarrow>
                    (let (ret, s'') = alloc \<lparr>Url = u, Auth = Auth f, api = api f, value_F = None\<rparr> s'
                     in if length res > 0 then
                          (case Unmarshal J res None of
                             Inl err \<Rightarrow> (Return (None, Some err), s'')
                           | Inr r \<Rightarrow>
                               (Return (Some ret, None),
                                store ret \<lparr>Url = u, Auth = Auth f, api = api f, value_F = r\<rparr> s''))
                        else (Return (Some ret, None), s'')))))"

definition Update ::
  "'v json \<Rightarrow> addr \<Rightarrow> string \<Rightarrow> 'v option \<Rightarrow> gomap \<Rightarrow> ('v, 'w) state
     \<Rightarrow> error option outcome \<times> ('v, 'w) state" where
  "Update J p path val params s =
     (case Marshal J val of
        Inl err \<Rightarrow> (Return (Some err), s)
      | Inr body \<Rightarrow>
          (case deref s p of
             None \<Rightarrow> (Panic, s)
           | Some f \<Rightarrow>
               (case api_Call f \<lparr>call_method = ''PATCH'', call_path = Url f @ ''/'' @ path,
                                call_auth = Auth f, call_body = body, call_params = params\<rparr> s of
                  (Panic, s') \<Rightarrow> (Panic, s')
                | (Return r, s') \<Rightarrow>
                    (let err = (case r of Inl e \<Rightarrow> Some e | Inr _ \<Rightarrow> None);
                         s'' = (if length path = 0 then store p (f\<lparr>value_F := None\<rparr>) s' else s')
                     in (Return err, s'')))))"

definition Remove ::
  "addr \<Rightarrow> string \<Rightarrow> gomap \<Rightarrow> ('v, 'w) state \<Rightarrow> error option outcome \<times> ('v, 'w) state" where
  "Remove p path params s =
     (case deref s p of
        None \<Rightarrow> (Panic, s)
      | Some f \<Rightarrow>
          (case api_Call f \<lparr>call_method = ''DELETE'', call_path = Url f @ ''/'' @ path,
                           call_auth = Auth f, call_body = [], call_params = params\<rparr> s of
             (Panic, s') \<Rightarrow> (Panic, s')
           | (Return r, s') \<Rightarrow> (Return (case r of Inl e \<Rightarrow> Some e | Inr _ \<Rightarrow> None), s')))"

section \<open>The query of a call, as the specification words it\<close>


section \<open>Test doubles\<close>

text \<open>
  Concrete transports and a concrete JSON codec, on which the theorems below are
  instantiated. The world of the doubles is a counter of the requests served.
  \<open>http_fixed status text\<close> is an HTTP stack whose every response has the given status
  and body; \<open>api_fixed r\<close> is an \<^verbatim>\<open>Api\<close> whose every call returns \<open>r\<close>. The values of
  \<open>json_text\<close> are JSON texts: marshalling writes the text (\<^verbatim>\<open>null\<close> for nil, an error
  for the text \<^verbatim>\<open>chan\<close>), unmarshalling reads it back (an error for the empty input and for
  the text \<^verbatim>\<open>{\<close>).
  Its objects of strings are written without quotation marks. \<open>loc_a a v\<close> is a
  Location with transport \<open>a\<close> and cached value \<open>v\<close>, \<open>state_of f\<close> the state that holds
  only \<open>f\<close>, at address 0, and \<open>call_to m u b\<close> the call this Location issues with
  method \<open>m\<close>, address \<open>u\<close> and body \<open>b\<close>.
\<close>

definition http_fixed :: "int \<Rightarrow> bytes \<Rightarrow> nat http" where
  "http_fixed status text =
     \<lparr>NewRequest = (\<lambda>m u. None),
      Do = (\<lambda>req w. (Inr \<lparr>StatusCode = status, Body = Inr text\<rparr>, Suc w))\<rparr>"

definition api_fixed :: "error + bytes \<Rightarrow> nat Api" where
  "api_fixed r = (\<lambda>c w. (r, Suc w))"

definition json_text :: "string json" where
  "json_text =
     \<lparr>Marshal = (\<lambda>v. case v of
                     None \<Rightarrow> Inr ''null''
                   | Some x \<Rightarrow> if x = ''chan'' then Inl (JsonError ''unsupported type'') else Inr x),
      Unmarshal = (\<lambda>res v.
                     if res = [] \<or> res = ''{'' then
                       Inl (JsonError ''unexpected end of JSON input'')
                     else if res = ''null'' then Inr None
                     else Inr (Some res)),
      Unmarshal_map = (\<lambda>res.
                     if res = ''{name:k1}'' then Inr [(''name'', ''k1'')]
                     else if res = ''{id:k1}'' then Inr [(''id'', ''k1'')]
                     else if res = ''{}'' \<or> res = ''null'' then Inr []
                     else Inl (JsonError ''cannot unmarshal''))\<rparr>"

definition call_GET :: call where
  "call_GET = \<lparr>call_method = ''GET'', call_path = ''https://x.io/a'', call_auth = [],
               call_body = [], call_params = []\<rparr>"

definition loc_a :: "nat Api option \<Rightarrow> string option \<Rightarrow> (string, nat) F" where
  "loc_a a v = \<lparr>Url = ''https://x.io/a'', Auth = ''t'', api = a, value_F = v\<rparr>"

definition state_of :: "(string, nat) F \<Rightarrow> (string, nat) state" where
  "state_of f = \<lparr>heap = [f], world = 0, calls = []\<rparr>"

definition call_to :: "string \<Rightarrow> string \<Rightarrow> bytes \<Rightarrow> call" where
  "call_to m u b = \<lparr>call_method = m, call_path = u, call_auth = ''t'', call_body = b,
                    call_params = []\<rparr>"

section \<open>The store and the transport call\<close>

lemma api_Call_Some:
  "api f = Some a \<Longrightarrow> a c (world s) = (r, w')
   \<Longrightarrow> api_Call f c s = (Return r, s\<lparr>world := w', calls := calls s @ [c]\<rparr>)"
  by (simp add: api_Call_def)

lemma api_Call_heap: "api_Call f c s = (r, s') \<Longrightarrow> heap s' = heap s"
  by (auto simp: api_Call_def split: option.splits prod.splits)

lemma deref_heap: "heap s' = heap s \<Longrightarrow> deref s' p = deref s p"
  by (simp add: deref_def)

lemma deref_alloc_old: "deref s p = Some f \<Longrightarrow> deref (snd (alloc x s)) p = Some f"
  by (auto simp: deref_def alloc_def nth_append split: if_splits)

lemma deref_alloc_new: "deref (snd (alloc x s)) (fst (alloc x s)) = Some x"
  by (simp add: deref_def alloc_def)

section \<open>The HTTP transport: the address of the request\<close>













section \<open>The HTTP transport: status codes\<close>

text \<open>
  C7. When the HTTP stack has returned a response and its body has been read as \<open>ret\<close>,
  \<^verbatim>\<open>client.Call\<close> returns (nil, error) for a status code of 400 or more, the error being
  \<^verbatim>\<open>errors.New(string(ret))\<close>, whose message is the body text as it is; for a status code
  below 400 it returns the bytes \<open>ret\<close> and no error.
\<close>

theorem client_Call_status:
  assumes "NewRequest H (call_method c)
             (Call_address (call_path c) (call_auth c) (call_params c)) = None"
    and "Do H \<lparr>Method = call_method c,
               URL = Call_address (call_path c) (call_auth c) (call_params c),
               ReqBody = call_body c, Close = True\<rparr> w = (Inr res, w')"
    and "Body res = Inr ret"
  shows "client_Call H c w =
           (if StatusCode res \<ge> 400 then (Inl (errorString ret), w') else (Inr ret, w'))
         \<and> Error (errorString ret) = ret"
  using assms by (simp add: client_Call_def Let_def)

theorem client_Call_status_witness:
  "client_Call (http_fixed 404 ''null'') call_GET 0 = (Inl (errorString ''null''), 1)
   \<and> client_Call (http_fixed 399 ''7'') call_GET 0 = (Inr ''7'', 1)"
proof -
  have a: "NewRequest (http_fixed s t) (call_method call_GET)
             (Call_address (call_path call_GET) (call_auth call_GET) (call_params call_GET))
           = None" for s t
    by (simp add: http_fixed_def)
  have b: "Do (http_fixed s t) \<lparr>Method = call_method call_GET,
               URL = Call_address (call_path call_GET) (call_auth call_GET) (call_params call_GET),
               ReqBody = call_body call_GET, Close = True\<rparr> 0
           = (Inr \<lparr>StatusCode = s, Body = Inr t\<rparr>, 1)" for s t
    by (simp add: http_fixed_def)
  have c: "Body \<lparr>StatusCode = s, Body = Inr t\<rparr> = Inr t" for s :: int and t :: bytes
    by simp
  from client_Call_status [OF a b c, of 404 "''null''"]
       client_Call_status [OF a b c, of 399 "''7''"]
  show ?thesis by simp
qed

section \<open>\<^verbatim>\<open>Child\<close>: every failure is nil\<close>

text \<open>
  C4. \<^verbatim>\<open>Child\<close> issues one GET to \<^verbatim>\<open>f.Url + "/" + path\<close>. When the transport returns an
  error, or returns bytes that \<^verbatim>\<open>json.Unmarshal\<close> rejects, \<^verbatim>\<open>Child\<close> returns nil and
  allocates no Location: result and state are the same for every error, so the caller
  cannot tell the failures apart. The witness runs \<^verbatim>\<open>Child\<close> against the HTTP transport
  with a server that answers 404 with the body \<^verbatim>\<open>null\<close>, and against a transport that
  returns an empty body.
\<close>

theorem Child_nil_on_failure:
  assumes "deref s p = Some f" and "api f = Some a"
    and "c = \<lparr>call_method = ''GET'', call_path = Url f @ ''/'' @ path, call_auth = Auth f,
              call_body = [], call_params = params\<rparr>"
    and "a c (world s) = (r, w')"
    and "(\<exists>e. r = Inl e) \<or> (\<exists>res e. r = Inr res \<and> Unmarshal J res v = Inl e)"
  shows "Child J p path params v s = (Return None, s\<lparr>world := w', calls := calls s @ [c]\<rparr>)"
  using assms by (auto simp: Child_def api_Call_Some)

theorem Child_nil_on_failure_witness:
  "Child json_text 0 ''b'' [] None
      (state_of (loc_a (Some (client_Call (http_fixed 404 ''null''))) None))
     = (Return None,
        \<lparr>heap = [loc_a (Some (client_Call (http_fixed 404 ''null''))) None], world = 1,
         calls = [call_to ''GET'' ''https://x.io/a/b'' []]\<rparr>)
   \<and> Child json_text 0 ''b'' [] None (state_of (loc_a (Some (api_fixed (Inr []))) None))
     = (Return None,
        \<lparr>heap = [loc_a (Some (api_fixed (Inr []))) None], world = 1,
         calls = [call_to ''GET'' ''https://x.io/a/b'' []]\<rparr>)"
proof -
  let ?a1 = "client_Call (http_fixed 404 ''null'')"
  let ?a2 = "api_fixed (Inr [])"
  let ?c = "call_to ''GET'' ''https://x.io/a/b'' []"
  have d: "deref (state_of (loc_a a None)) 0 = Some (loc_a a None)" for a :: "nat Api option"
    by (simp add: deref_def state_of_def)
  have a: "api (loc_a (Some x) None) = Some x" for x :: "nat Api"
    by (simp add: loc_a_def)
  have c: "?c = \<lparr>call_method = ''GET'', call_path = Url (loc_a x None) @ ''/'' @ ''b'',
                   call_auth = Auth (loc_a x None), call_body = [], call_params = []\<rparr>" for x
    by (simp add: call_to_def loc_a_def)
  have r1: "?a1 ?c (world (state_of (loc_a (Some ?a1) None))) = (Inl (errorString ''null''), 1)"
    by (simp add: client_Call_def http_fixed_def state_of_def Let_def)
  have r2: "?a2 ?c (world (state_of (loc_a (Some ?a2) None))) = (Inr [], 1)"
    by (simp add: api_fixed_def state_of_def)
  have f1: "(\<exists>e. (Inl (errorString ''null'') :: error + bytes) = Inl e)
            \<or> (\<exists>res e. (Inl (errorString ''null'') :: error + bytes) = Inr res
                  \<and> Unmarshal json_text res None = Inl e)"
    by simp
  have f2: "(\<exists>e. (Inr [] :: error + bytes) = Inl e)
            \<or> (\<exists>res e. (Inr [] :: error + bytes) = Inr res
                  \<and> Unmarshal json_text res None = Inl e)"
    by (simp add: json_text_def)
  from Child_nil_on_failure [where a = ?a1 and c = ?c, OF d a c r1 f1]
       Child_nil_on_failure [where a = ?a2 and c = ?c, OF d a c r2 f2]
  show ?thesis by (simp add: state_of_def)
qed

section \<open>\<^verbatim>\<open>Push\<close>\<close>

lemma Push_success:
  assumes "deref s p = Some f" and "api f = Some a"
    and "c = \<lparr>call_method = ''POST'', call_path = Url f, call_auth = Auth f,
              call_body = body, call_params = params\<rparr>"
    and "Marshal J val = Inr body" and "a c (world s) = (Inr res, w')"
    and "Unmarshal_map J res = Inr r"
  shows "Push J p val params s =
           (Return (Some (length (heap s)), None),
            s\<lparr>heap := heap s @ [\<lparr>Url = Url f @ ''/'' @ index r ''name'', Auth = Auth f,
                                  api = api f, value_F = val\<rparr>],
              world := w', calls := calls s @ [c]\<rparr>)"
  using assms by (simp add: Push_def api_Call_Some alloc_def)

lemma Push_not_both:
  "Push J p val params s = (Return (q, err), s') \<Longrightarrow> (q = None) = (err \<noteq> None)"
  by (auto simp: Push_def alloc_def split: sum.splits option.splits prod.splits outcome.splits)

text \<open>
  C5. \<^verbatim>\<open>Push\<close> marshals the value and issues one POST to \<^verbatim>\<open>f.Url\<close> with the marshalled
  body. It returns (nil, error) when marshalling fails (no call is issued), when the
  transport fails and when the response does not unmarshal into a map of strings. Else
  it returns a new Location at \<^verbatim>\<open>f.Url + "/" + r["name"]\<close> that caches the pushed value.
  It never returns a Location together with an error, and never neither.
\<close>

theorem Push_result:
  assumes "deref s p = Some f" and "api f = Some a"
    and "c = \<lparr>call_method = ''POST'', call_path = Url f, call_auth = Auth f,
              call_body = body, call_params = params\<rparr>"
  shows "(Marshal J val = Inl e \<longrightarrow> Push J p val params s = (Return (None, Some e), s))
       \<and> (Marshal J val = Inr body \<and> a c (world s) = (Inl e, w') \<longrightarrow>
            Push J p val params s =
              (Return (None, Some e), s\<lparr>world := w', calls := calls s @ [c]\<rparr>))
       \<and> (Marshal J val = Inr body \<and> a c (world s) = (Inr res, w')
            \<and> Unmarshal_map J res = Inl e \<longrightarrow>
            Push J p val params s =
              (Return (None, Some e), s\<lparr>world := w', calls := calls s @ [c]\<rparr>))
       \<and> (Marshal J val = Inr body \<and> a c (world s) = (Inr res, w')
            \<and> Unmarshal_map J res = Inr r \<longrightarrow>
            Push J p val params s =
              (Return (Some (length (heap s)), None),
               s\<lparr>heap := heap s @ [\<lparr>Url = Url f @ ''/'' @ index r ''name'', Auth = Auth f,
                                     api = api f, value_F = val\<rparr>],
                 world := w', calls := calls s @ [c]\<rparr>))
       \<and> (\<forall>q err s'. Push J p val params s = (Return (q, err), s') \<longrightarrow>
            (q = None) = (err \<noteq> None))"
proof (intro conjI impI allI)
  assume "Marshal J val = Inl e"
  then show "Push J p val params s = (Return (None, Some e), s)"
    by (simp add: Push_def)
next
  assume "Marshal J val = Inr body \<and> a c (world s) = (Inl e, w')"
  with assms show "Push J p val params s =
      (Return (None, Some e), s\<lparr>world := w', calls := calls s @ [c]\<rparr>)"
    by (simp add: Push_def api_Call_Some)
next
  assume "Marshal J val = Inr body \<and> a c (world s) = (Inr res, w') \<and> Unmarshal_map J res = Inl e"
  with assms show "Push J p val params s =
      (Return (None, Some e), s\<lparr>world := w', calls := calls s @ [c]\<rparr>)"
    by (simp add: Push_def api_Call_Some)
next
  assume "Marshal J val = Inr body \<and> a c (world s) = (Inr res, w') \<and> Unmarshal_map J res = Inr r"
  with assms show "Push J p val params s =
           (Return (Some (length (heap s)), None),
            s\<lparr>heap := heap s @ [\<lparr>Url = Url f @ ''/'' @ index r ''name'', Auth = Auth f,
                                  api = api f, value_F = val\<rparr>],
              world := w', calls := calls s @ [c]\<rparr>)"
    by (simp add: Push_success)
next
  fix q err s'
  assume "Push J p val params s = (Return (q, err), s')"
  then show "(q = None) = (err \<noteq> None)" by (rule Push_not_both)
qed

theorem Push_result_witness:
  "Push json_text 0 (Some ''5'') [] (state_of (loc_a (Some (api_fixed (Inr ''{name:k1}''))) None))
     = (Return (Some 1, None),
        \<lparr>heap = [loc_a (Some (api_fixed (Inr ''{name:k1}''))) None,
                 \<lparr>Url = ''https://x.io/a/k1'', Auth = ''t'',
                  api = Some (api_fixed (Inr ''{name:k1}'')), value_F = Some ''5''\<rparr>],
         world = 1, calls = [call_to ''POST'' ''https://x.io/a'' ''5'']\<rparr>)
   \<and> Push json_text 0 (Some ''chan'') []
        (state_of (loc_a (Some (api_fixed (Inr ''{name:k1}''))) None))
     = (Return (None, Some (JsonError ''unsupported type'')),
        state_of (loc_a (Some (api_fixed (Inr ''{name:k1}''))) None))
   \<and> fst (Push json_text 0 (Some ''5'') []
        (state_of (loc_a (Some (api_fixed (Inl (errorString ''boom'')))) None)))
     = Return (None, Some (errorString ''boom''))
   \<and> fst (Push json_text 0 (Some ''5'') []
        (state_of (loc_a (Some (api_fixed (Inr ''oops''))) None)))
     = Return (None, Some (JsonError ''cannot unmarshal''))"
proof -
  let ?c = "call_to ''POST'' ''https://x.io/a'' ''5''"
  have d: "deref (state_of (loc_a a None)) 0 = Some (loc_a a None)" for a :: "nat Api option"
    by (simp add: deref_def state_of_def)
  have a: "api (loc_a (Some x) None) = Some x" for x :: "nat Api"
    by (simp add: loc_a_def)
  have c: "?c = \<lparr>call_method = ''POST'', call_path = Url (loc_a x None),
                   call_auth = Auth (loc_a x None), call_body = ''5'', call_params = []\<rparr>" for x
    by (simp add: call_to_def loc_a_def)
  have m: "Marshal json_text (Some ''5'') = Inr ''5''"
          "Marshal json_text (Some ''chan'') = Inl (JsonError ''unsupported type'')"
    by (simp_all add: json_text_def)
  have u: "Unmarshal_map json_text ''{name:k1}'' = Inr [(''name'', ''k1'')]"
          "Unmarshal_map json_text ''oops'' = Inl (JsonError ''cannot unmarshal'')"
    by (simp_all add: json_text_def)
  have r: "api_fixed y ?c (world (state_of (loc_a (Some (api_fixed y)) None))) = (y, 1)" for y
    by (simp add: api_fixed_def state_of_def)
  from Push_result [where a = "api_fixed (Inr ''{name:k1}'')" and c = ?c and J = json_text
                      and val = "Some ''5''" and res = "''{name:k1}''" and w' = 1
                      and r = "[(''name'', ''k1'')]", OF d a c]
       Push_result [where a = "api_fixed (Inr ''{name:k1}'')" and c = ?c and J = json_text
                      and val = "Some ''chan''" and e = "JsonError ''unsupported type''",
                    OF d a c]
       Push_result [where a = "api_fixed (Inl (errorString ''boom''))" and c = ?c
                      and J = json_text and val = "Some ''5''" and e = "errorString ''boom''"
                      and w' = 1, OF d a c]
       Push_result [where a = "api_fixed (Inr ''oops'')" and c = ?c and J = json_text
                      and val = "Some ''5''" and res = "''oops''" and w' = 1
                      and e = "JsonError ''cannot unmarshal''", OF d a c]
  show ?thesis by (simp add: m u r index_def) (simp add: state_of_def loc_a_def)
qed

text \<open>
  C10. When the call succeeds and the response unmarshals into a map of strings without
  the key \<^verbatim>\<open>name\<close>, \<^verbatim>\<open>Push\<close> reports no error and returns a Location at
  \<^verbatim>\<open>f.Url + "/"\<close>: the generated key is the empty string.
\<close>

theorem Push_without_name:
  assumes "deref s p = Some f" and "api f = Some a"
    and "c = \<lparr>call_method = ''POST'', call_path = Url f, call_auth = Auth f,
              call_body = body, call_params = params\<rparr>"
    and "Marshal J val = Inr body" and "a c (world s) = (Inr res, w')"
    and "Unmarshal_map J res = Inr r" and "map_of r ''name'' = None"
  shows "Push J p val params s =
           (Return (Some (length (heap s)), None),
            s\<lparr>heap := heap s @ [\<lparr>Url = Url f @ ''/'', Auth = Auth f,
                                  api = api f, value_F = val\<rparr>],
              world := w', calls := calls s @ [c]\<rparr>)"
  using Push_success [OF assms(1-6)] assms(7) by (simp add: index_def)

theorem Push_without_name_witness:
  "Push json_text 0 (Some ''5'') [] (state_of (loc_a (Some (api_fixed (Inr ''{id:k1}''))) None))
     = (Return (Some 1, None),
        \<lparr>heap = [loc_a (Some (api_fixed (Inr ''{id:k1}''))) None,
                 \<lparr>Url = ''https://x.io/a/'', Auth = ''t'',
                  api = Some (api_fixed (Inr ''{id:k1}'')), value_F = Some ''5''\<rparr>],
         world = 1, calls = [call_to ''POST'' ''https://x.io/a'' ''5'']\<rparr>)"
proof -
  let ?c = "call_to ''POST'' ''https://x.io/a'' ''5''"
  let ?a = "api_fixed (Inr ''{id:k1}'')"
  have d: "deref (state_of (loc_a (Some ?a) None)) 0 = Some (loc_a (Some ?a) None)"
    by (simp add: deref_def state_of_def)
  have a: "api (loc_a (Some ?a) None) = Some ?a"
    by (simp add: loc_a_def)
  have c: "?c = \<lparr>call_method = ''POST'', call_path = Url (loc_a (Some ?a) None),
                   call_auth = Auth (loc_a (Some ?a) None), call_body = ''5'',
                   call_params = []\<rparr>"
    by (simp add: call_to_def loc_a_def)
  have m: "Marshal json_text (Some ''5'') = Inr ''5''"
    by (simp add: json_text_def)
  have r: "?a ?c (world (state_of (loc_a (Some ?a) None))) = (Inr ''{id:k1}'', 1)"
    by (simp add: api_fixed_def state_of_def)
  have u: "Unmarshal_map json_text ''{id:k1}'' = Inr [(''id'', ''k1'')]"
    by (simp add: json_text_def)
  have n: "map_of [(''id'', ''k1'')] ''name'' = None"
    by simp
  from Push_without_name [where a = ?a and c = ?c, OF d a c m r u n]
  show ?thesis by (simp add: state_of_def loc_a_def)
qed

section \<open>\<^verbatim>\<open>Set\<close>\<close>

text \<open>
  C6. \<^verbatim>\<open>Set\<close> marshals the value and issues one PUT to \<^verbatim>\<open>f.Url + "/" + path\<close>. It
  returns (nil, error) when marshalling fails, when the transport fails, and when a
  non-empty response does not unmarshal. On success it returns a new Location at that
  address, whose cached value is the unmarshalled response when the response is not
  empty, and nil when it is empty.
\<close>

theorem Set_result:
  assumes "deref s p = Some f" and "api f = Some a"
    and "c = \<lparr>call_method = ''PUT'', call_path = Url f @ ''/'' @ path, call_auth = Auth f,
              call_body = body, call_params = params\<rparr>"
  shows "(Marshal J val = Inl e \<longrightarrow> Set J p path val params s = (Return (None, Some e), s))
       \<and> (Marshal J val = Inr body \<and> a c (world s) = (Inl e, w') \<longrightarrow>
            Set J p path val params s =
              (Return (None, Some e), s\<lparr>world := w', calls := calls s @ [c]\<rparr>))
       \<and> (Marshal J val = Inr body \<and> a c (world s) = (Inr res, w') \<and> res = [] \<longrightarrow>
            Set J p path val params s =
              (Return (Some (length (heap s)), None),
               s\<lparr>heap := heap s @ [\<lparr>Url = Url f @ ''/'' @ path, Auth = Auth f,
                                     api = api f, value_F = None\<rparr>],
                 world := w', calls := calls s @ [c]\<rparr>))
       \<and> (Marshal J val = Inr body \<and> a c (world s) = (Inr res, w') \<and> res \<noteq> []
            \<and> Unmarshal J res None = Inr r \<longrightarrow>
            Set J p path val params s =
              (Return (Some (length (heap s)), None),
               s\<lparr>heap := heap s @ [\<lparr>Url = Url f @ ''/'' @ path, Auth = Auth f,
                                     api = api f, value_F = r\<rparr>],
                 world := w', calls := calls s @ [c]\<rparr>))
       \<and> (Marshal J val = Inr body \<and> a c (world s) = (Inr res, w') \<and> res \<noteq> []
            \<and> Unmarshal J res None = Inl e \<longrightarrow>
            fst (Set J p path val params s) = Return (None, Some e))"
  using assms by (simp add: Set_def api_Call_Some alloc_def store_def Let_def)

theorem Set_result_witness:
  "Set json_text 0 ''b'' (Some ''5'') [] (state_of (loc_a (Some (api_fixed (Inr ''6''))) None))
     = (Return (Some 1, None),
        \<lparr>heap = [loc_a (Some (api_fixed (Inr ''6''))) None,
                 \<lparr>Url = ''https://x.io/a/b'', Auth = ''t'',
                  api = Some (api_fixed (Inr ''6'')), value_F = Some ''6''\<rparr>],
         world = 1, calls = [call_to ''PUT'' ''https://x.io/a/b'' ''5'']\<rparr>)
   \<and> Set json_text 0 ''b'' (Some ''5'') [] (state_of (loc_a (Some (api_fixed (Inr []))) None))
     = (Return (Some 1, None),
        \<lparr>heap = [loc_a (Some (api_fixed (Inr []))) None,
                 \<lparr>Url = ''https://x.io/a/b'', Auth = ''t'',
                  api = Some (api_fixed (Inr [])), value_F = None\<rparr>],
         world = 1, calls = [call_to ''PUT'' ''https://x.io/a/b'' ''5'']\<rparr>)
   \<and> Set json_text 0 ''b'' (Some ''chan'') []
        (state_of (loc_a (Some (api_fixed (Inr ''6''))) None))
     = (Return (None, Some (JsonError ''unsupported type'')),
        state_of (loc_a (Some (api_fixed (Inr ''6''))) None))
   \<and> fst (Set json_text 0 ''b'' (Some ''5'') []
        (state_of (loc_a (Some (api_fixed (Inl (errorString ''boom'')))) None)))
     = Return (None, Some (errorString ''boom''))
   \<and> fst (Set json_text 0 ''b'' (Some ''5'') []
        (state_of (loc_a (Some (api_fixed (Inr ''{''))) None)))
     = Return (None, Some (JsonError ''unexpected end of JSON input''))"
proof -
  let ?c = "call_to ''PUT'' ''https://x.io/a/b'' ''5''"
  have d: "deref (state_of (loc_a a None)) 0 = Some (loc_a a None)" for a :: "nat Api option"
    by (simp add: deref_def state_of_def)
  have a: "api (loc_a (Some x) None) = Some x" for x :: "nat Api"
    by (simp add: loc_a_def)
  have c: "?c = \<lparr>call_method = ''PUT'', call_path = Url (loc_a x None) @ ''/'' @ ''b'',
                   call_auth = Auth (loc_a x None), call_body = ''5'', call_params = []\<rparr>" for x
    by (simp add: call_to_def loc_a_def)
  have m: "Marshal json_text (Some ''5'') = Inr ''5''"
          "Marshal json_text (Some ''chan'') = Inl (JsonError ''unsupported type'')"
    by (simp_all add: json_text_def)
  have u: "Unmarshal json_text ''6'' None = Inr (Some ''6'')"
          "Unmarshal json_text ''{'' None = Inl (JsonError ''unexpected end of JSON input'')"
    by (simp_all add: json_text_def)
  have r: "api_fixed y ?c (world (state_of (loc_a (Some (api_fixed y)) None))) = (y, 1)" for y
    by (simp add: api_fixed_def state_of_def)
  from Set_result [where a = "api_fixed (Inr ''6'')" and c = ?c and J = json_text
                     and val = "Some ''5''" and res = "''6''" and w' = 1
                     and r = "Some ''6''", OF d a c]
       Set_result [where a = "api_fixed (Inr [])" and c = ?c and J = json_text
                     and val = "Some ''5''" and res = "[]" and w' = 1, OF d a c]
       Set_result [where a = "api_fixed (Inr ''6'')" and c = ?c and J = json_text
                     and val = "Some ''chan''" and e = "JsonError ''unsupported type''",
                   OF d a c]
       Set_result [where a = "api_fixed (Inl (errorString ''boom''))" and c = ?c
                     and J = json_text and val = "Some ''5''" and e = "errorString ''boom''"
                     and w' = 1, OF d a c]
       Set_result [where a = "api_fixed (Inr ''{'')" and c = ?c and J = json_text
                     and val = "Some ''5''" and res = "''{''" and w' = 1
                     and e = "JsonError ''unexpected end of JSON input''", OF d a c]
  show ?thesis by (simp add: m u r) (simp add: state_of_def loc_a_def)
qed

section \<open>\<^verbatim>\<open>Remove\<close>\<close>

text \<open>
  C8. \<^verbatim>\<open>Remove\<close> issues exactly one call, a DELETE to \<^verbatim>\<open>f.Url + "/" + path\<close> with no
  body: the record of calls grows by this one call. It returns the error of the
  transport as it is, nil when the transport returns none, and the store is unchanged:
  no Location is made.
\<close>

theorem Remove_one_DELETE:
  assumes "deref s p = Some f" and "api f = Some a"
    and "c = \<lparr>call_method = ''DELETE'', call_path = Url f @ ''/'' @ path, call_auth = Auth f,
              call_body = [], call_params = params\<rparr>"
    and "a c (world s) = (r, w')"
  shows "Remove p path params s =
           (Return (case r of Inl e \<Rightarrow> Some e | Inr res \<Rightarrow> None),
            s\<lparr>world := w', calls := calls s @ [c]\<rparr>)"
  using assms by (simp add: Remove_def api_Call_Some)

theorem Remove_one_DELETE_witness:
  "Remove 0 ''b'' [] (state_of (loc_a (Some (api_fixed (Inl (errorString ''boom'')))) None))
     = (Return (Some (errorString ''boom'')),
        \<lparr>heap = [loc_a (Some (api_fixed (Inl (errorString ''boom'')))) None], world = 1,
         calls = [call_to ''DELETE'' ''https://x.io/a/b'' []]\<rparr>)
   \<and> Remove 0 ''b'' [] (state_of (loc_a (Some (api_fixed (Inr ''null''))) None))
     = (Return None,
        \<lparr>heap = [loc_a (Some (api_fixed (Inr ''null''))) None], world = 1,
         calls = [call_to ''DELETE'' ''https://x.io/a/b'' []]\<rparr>)"
proof -
  let ?c = "call_to ''DELETE'' ''https://x.io/a/b'' []"
  have d: "deref (state_of (loc_a a None)) 0 = Some (loc_a a None)" for a :: "nat Api option"
    by (simp add: deref_def state_of_def)
  have a: "api (loc_a (Some x) None) = Some x" for x :: "nat Api"
    by (simp add: loc_a_def)
  have c: "?c = \<lparr>call_method = ''DELETE'', call_path = Url (loc_a x None) @ ''/'' @ ''b'',
                   call_auth = Auth (loc_a x None), call_body = [], call_params = []\<rparr>" for x
    by (simp add: call_to_def loc_a_def)
  have r: "api_fixed y ?c (world (state_of (loc_a (Some (api_fixed y)) None))) = (y, 1)" for y
    by (simp add: api_fixed_def state_of_def)
  from Remove_one_DELETE [where a = "api_fixed (Inl (errorString ''boom''))" and c = ?c,
                          OF d a c r]
       Remove_one_DELETE [where a = "api_fixed (Inr ''null'')" and c = ?c, OF d a c r]
  show ?thesis by (simp add: state_of_def)
qed

section \<open>The receiver is not changed\<close>

lemma Child_receiver: "deref s p = Some f \<Longrightarrow> deref (snd (Child J p path params v s)) p = Some f"
  by (auto simp: Child_def api_Call_def alloc_def deref_def nth_append Let_def
           split: option.splits sum.splits prod.splits outcome.splits if_splits)

lemma Push_receiver: "deref s p = Some f \<Longrightarrow> deref (snd (Push J p val params s)) p = Some f"
  by (auto simp: Push_def api_Call_def alloc_def deref_def nth_append Let_def
           split: option.splits sum.splits prod.splits outcome.splits if_splits)

lemma Set_receiver: "deref s p = Some f \<Longrightarrow> deref (snd (Set J p path val params s)) p = Some f"
  by (auto simp: Set_def api_Call_def alloc_def store_def deref_def nth_append Let_def
           split: option.splits sum.splits prod.splits outcome.splits if_splits)

lemma Remove_receiver: "deref s p = Some f \<Longrightarrow> deref (snd (Remove p path params s)) p = Some f"
  by (auto simp: Remove_def api_Call_def deref_def Let_def
           split: option.splits sum.splits prod.splits outcome.splits if_splits)

lemma Child_new:
  "deref s p = Some f \<Longrightarrow> Child J p path params v s = (Return (Some q), s')
   \<Longrightarrow> \<exists>g. deref s' q = Some g \<and> Auth g = Auth f \<and> api g = api f"
  by (auto simp: Child_def api_Call_def alloc_def deref_def nth_append Let_def
           split: option.splits sum.splits prod.splits outcome.splits if_splits)

lemma Push_new:
  "deref s p = Some f \<Longrightarrow> Push J p val params s = (Return (Some q, err), s')
   \<Longrightarrow> \<exists>g. deref s' q = Some g \<and> Auth g = Auth f \<and> api g = api f"
  by (auto simp: Push_def api_Call_def alloc_def deref_def nth_append Let_def
           split: option.splits sum.splits prod.splits outcome.splits if_splits)

lemma Set_new:
  "deref s p = Some f \<Longrightarrow> Set J p path val params s = (Return (Some q, err), s')
   \<Longrightarrow> \<exists>g. deref s' q = Some g \<and> Auth g = Auth f \<and> api g = api f"
  by (auto simp: Set_def api_Call_def alloc_def store_def deref_def nth_append Let_def
           split: option.splits sum.splits prod.splits outcome.splits if_splits)

text \<open>
  C9. After \<^verbatim>\<open>Child\<close>, \<^verbatim>\<open>Push\<close>, \<^verbatim>\<open>Set\<close> and \<^verbatim>\<open>Remove\<close>, whatever their outcome, the
  struct at the receiver's address is the one that was there before (all four fields),
  and a Location returned by \<^verbatim>\<open>Child\<close>, \<^verbatim>\<open>Push\<close> or \<^verbatim>\<open>Set\<close> has the receiver's
  \<^verbatim>\<open>Auth\<close> and \<^verbatim>\<open>api\<close>.
\<close>

theorem receiver_frame:
  assumes "deref s p = Some f"
  shows "deref (snd (Child J p path params v s)) p = Some f
       \<and> deref (snd (Push J p val params s)) p = Some f
       \<and> deref (snd (Set J p path val params s)) p = Some f
       \<and> deref (snd (Remove p path params s)) p = Some f
       \<and> (\<forall>q s'. Child J p path params v s = (Return (Some q), s') \<longrightarrow>
            (\<exists>g. deref s' q = Some g \<and> Auth g = Auth f \<and> api g = api f))
       \<and> (\<forall>q err s'. Push J p val params s = (Return (Some q, err), s') \<longrightarrow>
            (\<exists>g. deref s' q = Some g \<and> Auth g = Auth f \<and> api g = api f))
       \<and> (\<forall>q err s'. Set J p path val params s = (Return (Some q, err), s') \<longrightarrow>
            (\<exists>g. deref s' q = Some g \<and> Auth g = Auth f \<and> api g = api f))"
proof (intro conjI allI impI)
  show "deref (snd (Child J p path params v s)) p = Some f"
    using assms by (rule Child_receiver)
  show "deref (snd (Push J p val params s)) p = Some f"
    using assms by (rule Push_receiver)
  show "deref (snd (Set J p path val params s)) p = Some f"
    using assms by (rule Set_receiver)
  show "deref (snd (Remove p path params s)) p = Some f"
    using assms by (rule Remove_receiver)
next
  fix q s'
  assume "Child J p path params v s = (Return (Some q), s')"
  with assms show "\<exists>g. deref s' q = Some g \<and> Auth g = Auth f \<and> api g = api f"
    by (rule Child_new)
next
  fix q err s'
  assume "Push J p val params s = (Return (Some q, err), s')"
  with assms show "\<exists>g. deref s' q = Some g \<and> Auth g = Auth f \<and> api g = api f"
    by (rule Push_new)
next
  fix q err s'
  assume "Set J p path val params s = (Return (Some q, err), s')"
  with assms show "\<exists>g. deref s' q = Some g \<and> Auth g = Auth f \<and> api g = api f"
    by (rule Set_new)
qed

theorem receiver_frame_witness:
  "deref (snd (Child json_text 0 ''b'' [] None
       (state_of (loc_a (Some (api_fixed (Inr ''{name:k1}''))) None)))) 0
     = Some (loc_a (Some (api_fixed (Inr ''{name:k1}''))) None)
   \<and> deref (snd (Push json_text 0 (Some ''5'') []
       (state_of (loc_a (Some (api_fixed (Inr ''{name:k1}''))) None)))) 0
     = Some (loc_a (Some (api_fixed (Inr ''{name:k1}''))) None)
   \<and> deref (snd (Set json_text 0 ''b'' (Some ''5'') []
       (state_of (loc_a (Some (api_fixed (Inr ''{name:k1}''))) None)))) 0
     = Some (loc_a (Some (api_fixed (Inr ''{name:k1}''))) None)
   \<and> deref (snd (Remove 0 ''b'' []
       (state_of (loc_a (Some (api_fixed (Inr ''{name:k1}''))) None)))) 0
     = Some (loc_a (Some (api_fixed (Inr ''{name:k1}''))) None)
   \<and> (\<exists>g. deref (snd (Child json_text 0 ''b'' [] None
                (state_of (loc_a (Some (api_fixed (Inr ''{name:k1}''))) None)))) 1 = Some g
          \<and> Auth g = ''t'' \<and> api g = Some (api_fixed (Inr ''{name:k1}'')))
   \<and> (\<exists>g. deref (snd (Push json_text 0 (Some ''5'') []
                (state_of (loc_a (Some (api_fixed (Inr ''{name:k1}''))) None)))) 1 = Some g
          \<and> Auth g = ''t'' \<and> api g = Some (api_fixed (Inr ''{name:k1}'')))
   \<and> (\<exists>g. deref (snd (Set json_text 0 ''b'' (Some ''5'') []
                (state_of (loc_a (Some (api_fixed (Inr ''{name:k1}''))) None)))) 1 = Some g
          \<and> Auth g = ''t'' \<and> api g = Some (api_fixed (Inr ''{name:k1}'')))"
proof -
  let ?f = "loc_a (Some (api_fixed (Inr ''{name:k1}''))) None"
  let ?s = "state_of ?f"
  have d: "deref ?s 0 = Some ?f"
    by (simp add: deref_def state_of_def)
  have af: "Auth ?f = ''t''" "api ?f = Some (api_fixed (Inr ''{name:k1}''))"
    by (simp_all add: loc_a_def)
  have e1: "Child json_text 0 ''b'' [] None ?s
              = (Return (Some 1), snd (Child json_text 0 ''b'' [] None ?s))"
    by (simp add: Child_def api_Call_def alloc_def deref_def state_of_def loc_a_def
          json_text_def api_fixed_def Let_def)
  have e2: "Push json_text 0 (Some ''5'') [] ?s
              = (Return (Some 1, None), snd (Push json_text 0 (Some ''5'') [] ?s))"
    by (simp add: Push_def api_Call_def alloc_def deref_def state_of_def loc_a_def
          json_text_def api_fixed_def Let_def)
  have e3: "Set json_text 0 ''b'' (Some ''5'') [] ?s
              = (Return (Some 1, None), snd (Set json_text 0 ''b'' (Some ''5'') [] ?s))"
    by (simp add: Set_def api_Call_def alloc_def store_def deref_def state_of_def loc_a_def
          json_text_def api_fixed_def Let_def)
  from receiver_frame [OF d, of json_text "''b''" "[]" None "Some ''5''"] e1 e2 e3 af
  show ?thesis by metis
qed

section \<open>\<^verbatim>\<open>Update\<close>\<close>

text \<open>
  C3, as the claim states it, fails: with the empty path and a transport that returns
  an error, \<^verbatim>\<open>Update\<close> returns that error and has cleared the cached value \<^verbatim>\<open>1\<close> of the
  receiver.
\<close>

theorem Update_failure_counterexample:
  "fst (Update json_text 0 [] (Some ''{}'') []
          (state_of (loc_a (Some (api_fixed (Inl (errorString ''boom'')))) (Some ''1''))))
     = Return (Some (errorString ''boom''))
   \<and> deref (state_of (loc_a (Some (api_fixed (Inl (errorString ''boom'')))) (Some ''1''))) 0
     = Some (loc_a (Some (api_fixed (Inl (errorString ''boom'')))) (Some ''1''))
   \<and> deref (snd (Update json_text 0 [] (Some ''{}'') []
          (state_of (loc_a (Some (api_fixed (Inl (errorString ''boom'')))) (Some ''1''))))) 0
     = Some (loc_a (Some (api_fixed (Inl (errorString ''boom'')))) None)"
  by (simp add: Update_def api_Call_def store_def deref_def state_of_def loc_a_def
        json_text_def api_fixed_def)

text \<open>
  C3, amended. When marshalling fails, \<^verbatim>\<open>Update\<close> returns the error, issues no call and
  leaves the state as it is. Else it issues one PATCH to \<^verbatim>\<open>f.Url + "/" + path\<close> and
  returns the error of the transport; after the call the cached value of the receiver
  is nil when the path is empty, whether the transport failed or not, and unchanged
  when the path is not empty. The other fields of the receiver stay.
\<close>

theorem Update_clears_on_empty_path:
  assumes "deref s p = Some f" and "api f = Some a"
    and "c = \<lparr>call_method = ''PATCH'', call_path = Url f @ ''/'' @ path, call_auth = Auth f,
              call_body = body, call_params = params\<rparr>"
  shows "(Marshal J val = Inl e \<longrightarrow> Update J p path val params s = (Return (Some e), s))
       \<and> (Marshal J val = Inr body \<and> a c (world s) = (r, w') \<longrightarrow>
            Update J p path val params s =
              (Return (case r of Inl e \<Rightarrow> Some e | Inr res \<Rightarrow> None),
               s\<lparr>heap := (heap s)[p := f\<lparr>value_F := (if path = [] then None else value_F f)\<rparr>],
                 world := w', calls := calls s @ [c]\<rparr>))"
  using assms
  by (auto simp: Update_def api_Call_Some store_def deref_def Let_def split: if_splits)

theorem Update_clears_on_empty_path_witness:
  "Update json_text 0 [] (Some ''5'') []
      (state_of (loc_a (Some (api_fixed (Inl (errorString ''boom'')))) (Some ''1'')))
     = (Return (Some (errorString ''boom'')),
        \<lparr>heap = [loc_a (Some (api_fixed (Inl (errorString ''boom'')))) None], world = 1,
         calls = [call_to ''PATCH'' ''https://x.io/a/'' ''5'']\<rparr>)
   \<and> Update json_text 0 [] (Some ''5'') []
      (state_of (loc_a (Some (api_fixed (Inr ''5''))) (Some ''1'')))
     = (Return None,
        \<lparr>heap = [loc_a (Some (api_fixed (Inr ''5''))) None], world = 1,
         calls = [call_to ''PATCH'' ''https://x.io/a/'' ''5'']\<rparr>)
   \<and> Update json_text 0 ''b'' (Some ''5'') []
      (state_of (loc_a (Some (api_fixed (Inr ''5''))) (Some ''1'')))
     = (Return None,
        \<lparr>heap = [loc_a (Some (api_fixed (Inr ''5''))) (Some ''1'')], world = 1,
         calls = [call_to ''PATCH'' ''https://x.io/a/b'' ''5'']\<rparr>)
   \<and> Update json_text 0 [] (Some ''chan'') []
      (state_of (loc_a (Some (api_fixed (Inr ''5''))) (Some ''1'')))
     = (Return (Some (JsonError ''unsupported type'')),
        state_of (loc_a (Some (api_fixed (Inr ''5''))) (Some ''1'')))"
proof -
  let ?v = "Some ''1'' :: string option"
  have d: "deref (state_of (loc_a a ?v)) 0 = Some (loc_a a ?v)" for a :: "nat Api option"
    by (simp add: deref_def state_of_def)
  have a: "api (loc_a (Some x) ?v) = Some x" for x :: "nat Api"
    by (simp add: loc_a_def)
  have c: "call_to ''PATCH'' (''https://x.io/a/'' @ path) ''5'' =
             \<lparr>call_method = ''PATCH'', call_path = Url (loc_a x ?v) @ ''/'' @ path,
              call_auth = Auth (loc_a x ?v), call_body = ''5'', call_params = []\<rparr>" for x path
    by (simp add: call_to_def loc_a_def)
  have m: "Marshal json_text (Some ''5'') = Inr ''5''"
          "Marshal json_text (Some ''chan'') = Inl (JsonError ''unsupported type'')"
    by (simp_all add: json_text_def)
  have r: "api_fixed y k (world (state_of (loc_a (Some (api_fixed y)) ?v))) = (y, 1)" for y k
    by (simp add: api_fixed_def state_of_def)
  from Update_clears_on_empty_path
         [where a = "api_fixed (Inl (errorString ''boom''))" and J = json_text
            and path = "[]" and val = "Some ''5''" and w' = 1
            and r = "Inl (errorString ''boom'')", OF d a c]
       Update_clears_on_empty_path
         [where a = "api_fixed (Inr ''5'')" and J = json_text
            and path = "[]" and val = "Some ''5''" and w' = 1 and r = "Inr ''5''", OF d a c]
       Update_clears_on_empty_path
         [where a = "api_fixed (Inr ''5'')" and J = json_text
            and path = "''b''" and val = "Some ''5''" and w' = 1 and r = "Inr ''5''", OF d a c]
       Update_clears_on_empty_path
         [where a = "api_fixed (Inr ''5'')" and J = json_text
            and path = "[]" and val = "Some ''chan''"
            and e = "JsonError ''unsupported type''", OF d a c]
  show ?thesis by (simp add: m r) (simp add: state_of_def loc_a_def)
qed

section \<open>\<^verbatim>\<open>Value\<close>\<close>

text \<open>
  \<^verbatim>\<open>Value\<close> never writes the struct of the receiver. With a cached value it returns
  it, and state and record of calls stay as they are; without one it issues one GET to
  \<^verbatim>\<open>f.Url + "/"\<close> and returns the value read, nil when the transport or the decoder
  fails.
\<close>

lemma Value_receiver: "deref s p = Some f \<Longrightarrow> deref (snd (Value J p s)) p = Some f"
  using Child_receiver [of s p f J "[]" "[]" None]
  by (auto simp: Value_def split: option.splits prod.splits outcome.splits)

lemma Value_cached:
  "deref s p = Some f \<Longrightarrow> value_F f = Some x \<Longrightarrow> Value J p s = (Return (Some x), s)"
  by (simp add: Value_def)

lemma Value_read:
  assumes "deref s p = Some f" and "value_F f = None" and "api f = Some a"
    and "c = \<lparr>call_method = ''GET'', call_path = Url f @ ''/'', call_auth = Auth f,
              call_body = [], call_params = []\<rparr>"
    and "a c (world s) = (r, w')"
  shows "fst (Value J p s) =
           Return (case r of
                     Inl e \<Rightarrow> None
                   | Inr res \<Rightarrow> (case Unmarshal J res None of Inl e \<Rightarrow> None | Inr v \<Rightarrow> v))"
    and "calls (snd (Value J p s)) = calls s @ [c]"
  using assms
  by (auto simp: Value_def Child_def api_Call_Some alloc_def deref_def Let_def
           split: sum.splits)

text \<open>
  C2. On a receiver without cached value, over a transport that returns \<^verbatim>\<open>7\<close>,
  \<^verbatim>\<open>Value\<close> issues one GET to \<^verbatim>\<open>f.Url + "/"\<close> and returns the value read. The value is
  cached in the new Location that \<^verbatim>\<open>Child\<close> made, at address 1; the receiver, at
  address 0, still has no cached value, and a second \<^verbatim>\<open>Value\<close> issues a second call.
\<close>

theorem Value_does_not_cache:
  "Value json_text 0 (state_of (loc_a (Some (api_fixed (Inr ''7''))) None))
     = (Return (Some ''7''),
        \<lparr>heap = [loc_a (Some (api_fixed (Inr ''7''))) None,
                 \<lparr>Url = ''https://x.io/a/'', Auth = ''t'', api = Some (api_fixed (Inr ''7'')),
                  value_F = Some ''7''\<rparr>],
         world = 1,
         calls = [\<lparr>call_method = ''GET'', call_path = ''https://x.io/a/'', call_auth = ''t'',
                   call_body = [], call_params = []\<rparr>]\<rparr>)
   \<and> length (calls (snd (Value json_text 0
        (snd (Value json_text 0 (state_of (loc_a (Some (api_fixed (Inr ''7''))) None))))))) = 2"
  by (simp add: Value_def Child_def api_Call_def alloc_def deref_def state_of_def loc_a_def
        json_text_def api_fixed_def Let_def)

end
